theory Spec2Isabelle
  imports Complex_Main
begin

section \<open>Thrown errors\<close>

text \<open>
  Every \<^verbatim>\<open>await\<close> on the browser page can reject.  A rejected promise (a thrown
  JavaScript \<^verbatim>\<open>Error\<close>) is the left injection of a sum; the string is its
  \<^verbatim>\<open>message\<close>.
\<close>

datatype error = Error string

section \<open>The scroll driver of \<^verbatim>\<open>scrapeGoogleMaps\<close> (scraper.js, lines 269-403)\<close>

text \<open>
  The loop variables of the source, together with the lines written by
  \<^verbatim>\<open>console.log(`Scroll attempt ${scrollAttempts + 1}: Found ${currentCount} results`)\<close>:
  one entry per execution of the loop body.
\<close>

record scroll_state =
  previousCount :: nat
  currentCount :: nat
  scrollAttempts :: nat
  noChangeCount :: nat
  attempt_log :: "(nat \<times> nat) list"

text \<open>
  What the page answers during the loop.  \<open>selector_hits pg i\<close> is the outcome of the counting
  \<^verbatim>\<open>page.evaluate\<close> in the body that runs with \<^verbatim>\<open>scrollAttempts = i\<close>: the values of
  \<^verbatim>\<open>document.querySelectorAll(selector).length\<close> for the four selectors, in order, or a
  rejection.  \<open>nudge pg i\<close> is the outcome of the awaits of that body that are not inside a
  \<^verbatim>\<open>try\<close> (the scrolling \<^verbatim>\<open>page.evaluate\<close> and the final \<^verbatim>\<open>waitForTimeout(1500)\<close>);
  the keyboard, scroll-into-view, hover and loading-indicator steps swallow their errors.
\<close>

record scroll_page =
  selector_hits :: "nat \<Rightarrow> error + nat list"
  nudge :: "nat \<Rightarrow> error + unit"

definition maxScrollAttempts :: nat where
  "maxScrollAttempts = 100"

text \<open>The body of the counting \<^verbatim>\<open>page.evaluate\<close>: the largest of the selector counts.\<close>

definition count_in_page :: "nat list \<Rightarrow> nat" where
  "count_in_page hits = fold (\<lambda>n maxCount. if n > maxCount then n else maxCount) hits 0"

datatype iteration = Break scroll_state | Thrown scroll_state error | Continue scroll_state

text \<open>One execution of the body of \<^verbatim>\<open>while (scrollAttempts < maxScrollAttempts)\<close>.\<close>

definition scroll_iteration :: "scroll_page \<Rightarrow> scroll_state \<Rightarrow> iteration" where
  "scroll_iteration pg s =
     (case selector_hits pg (scrollAttempts s) of
        Inl e \<Rightarrow> Thrown s e
      | Inr hits \<Rightarrow>
          (let s1 = s\<lparr>currentCount := count_in_page hits\<rparr>;
               s2 = s1\<lparr>attempt_log := attempt_log s1 @ [(scrollAttempts s1 + 1, currentCount s1)]\<rparr>;
               s3 = (if currentCount s2 = previousCount s2
                     then s2\<lparr>noChangeCount := noChangeCount s2 + 1\<rparr>
                     else s2\<lparr>noChangeCount := 0\<rparr>)
           in if currentCount s2 = previousCount s2 \<and> noChangeCount s3 \<ge> 2 then Break s3
              else (let s4 = s3\<lparr>previousCount := currentCount s3\<rparr>
                    in case nudge pg (scrollAttempts s4) of
                         Inl e \<Rightarrow> Thrown s4 e
                       | Inr _ \<Rightarrow> Continue (s4\<lparr>scrollAttempts := scrollAttempts s4 + 1\<rparr>))))"

lemma scroll_iteration_Continue:
  "scroll_iteration pg s = Continue s' \<Longrightarrow> scrollAttempts s' = scrollAttempts s + 1"
  by (auto simp: scroll_iteration_def Let_def split: sum.splits if_splits)

text \<open>
  The loop.  The result is the state at loop exit and, when an await of the body rejected,
  the error that leaves the loop (and the whole scrape) with it.
\<close>

function scroll_loop :: "scroll_page \<Rightarrow> scroll_state \<Rightarrow> scroll_state \<times> error option" where
  "scroll_loop pg s =
     (if scrollAttempts s < maxScrollAttempts then
        (case scroll_iteration pg s of
           Break s' \<Rightarrow> (s', None)
         | Thrown s' e \<Rightarrow> (s', Some e)
         | Continue s' \<Rightarrow> scroll_loop pg s')
      else (s, None))"
  by pat_completeness auto
termination
  by (relation "measure (\<lambda>(pg, s). maxScrollAttempts - scrollAttempts s)")
     (auto dest: scroll_iteration_Continue)

text \<open>The number of executions of the loop body in that run of the loop.\<close>

function scroll_iterations :: "scroll_page \<Rightarrow> scroll_state \<Rightarrow> nat" where
  "scroll_iterations pg s =
     (if scrollAttempts s < maxScrollAttempts then
        (case scroll_iteration pg s of
           Break s' \<Rightarrow> 1
         | Thrown s' e \<Rightarrow> 1
         | Continue s' \<Rightarrow> 1 + scroll_iterations pg s')
      else 0)"
  by pat_completeness auto
termination
  by (relation "measure (\<lambda>(pg, s). maxScrollAttempts - scrollAttempts s)")
     (auto dest: scroll_iteration_Continue)

definition scroll_init :: scroll_state where
  "scroll_init = \<lparr>previousCount = 0, currentCount = 0, scrollAttempts = 0, noChangeCount = 0,
                  attempt_log = []\<rparr>"

definition scroll_to_load :: "scroll_page \<Rightarrow> scroll_state \<times> error option" where
  "scroll_to_load pg = scroll_loop pg scroll_init"


text \<open>What the loop reads as \<^verbatim>\<open>currentCount\<close> in the body with \<^verbatim>\<open>scrollAttempts = i\<close>.\<close>

definition observed_count :: "scroll_page \<Rightarrow> nat \<Rightarrow> nat option" where
  "observed_count pg i =
     (case selector_hits pg i of Inl e \<Rightarrow> None | Inr hits \<Rightarrow> Some (count_in_page hits))"

text \<open>Pages used as concrete inputs: a list that stays at \<open>n\<close> results, a list that shows
  5 results at the first two checks and 6 from then on.\<close>

definition steady_page :: "nat \<Rightarrow> scroll_page" where
  "steady_page n = \<lparr>selector_hits = (\<lambda>i. Inr [n, 0, 0, 0]), nudge = (\<lambda>i. Inr ())\<rparr>"

definition page_5_5_then_6 :: scroll_page where
  "page_5_5_then_6 =
     \<lparr>selector_hits = (\<lambda>i. if i < 2 then Inr [5, 0, 0, 0] else Inr [6, 0, 0, 0]),
      nudge = (\<lambda>i. Inr ())\<rparr>"

section \<open>JavaScript strings and values\<close>

text \<open>
  Strings are lists of characters: a character stands for the UTF-16 code unit of the same
  number, so the strings of the model are the JavaScript strings whose code units are below
  256.  A value that may be \<^verbatim>\<open>null\<close> or \<^verbatim>\<open>undefined\<close> is an option; both are falsy, and
  so is the empty string.
\<close>

definition truthy :: "string option \<Rightarrow> bool" where
  "truthy v = (case v of None \<Rightarrow> False | Some s \<Rightarrow> s \<noteq> [])"

text \<open>\<^verbatim>\<open>a || b\<close>: the left operand when it is truthy, the right one otherwise.\<close>

definition js_or :: "string option \<Rightarrow> string option \<Rightarrow> string option" where
  "js_or a b = (if truthy a then a else b)"

definition startsWith :: "string \<Rightarrow> string \<Rightarrow> bool" where
  "startsWith s p = (take (length p) s = p)"

text \<open>\<^verbatim>\<open>s.includes(sub)\<close>: \<open>sub\<close> starts at some position of \<open>s\<close> (case-sensitive).\<close>

fun str_includes :: "string \<Rightarrow> string \<Rightarrow> bool" where
  "str_includes [] sub = (sub = [])"
| "str_includes (c # cs) sub = (startsWith (c # cs) sub \<or> str_includes cs sub)"

definition is_digit :: "char \<Rightarrow> bool" where
  "is_digit c = (c \<in> set ''0123456789'')"

text \<open>The class \<^verbatim>\<open>\s\<close>, which is also what \<^verbatim>\<open>trim\<close> strips: among the code
  units below 256 these are tab, line feed, vertical tab, form feed, carriage return, space
  and the no-break space U+00A0.\<close>

definition is_space :: "char \<Rightarrow> bool" where
  "is_space c =
     (c \<in> {CHR '' '', CHR 0x09, CHR 0x0A, CHR 0x0B, CHR 0x0C, CHR 0x0D, CHR 0xA0})"

definition trim :: "string \<Rightarrow> string" where
  "trim s = rev (dropWhile is_space (rev (dropWhile is_space s)))"

text \<open>\<^verbatim>\<open>s.replace(/\D/g, '')\<close>: the digits of \<open>s\<close>, in order.\<close>

definition digitsOnly :: "string \<Rightarrow> string" where
  "digitsOnly s = filter is_digit s"

text \<open>\<^verbatim>\<open>s.toLowerCase()\<close>: among the code units below 256 the capitals are A to Z and
  U+00C0 to U+00DE without the multiplication sign U+00D7; the small letter of each lies 32
  code units above it.\<close>

definition latin1_capitals :: "char list" where
  "latin1_capitals =
     [CHR 0xC0, CHR 0xC1, CHR 0xC2, CHR 0xC3, CHR 0xC4, CHR 0xC5, CHR 0xC6, CHR 0xC7,
      CHR 0xC8, CHR 0xC9, CHR 0xCA, CHR 0xCB, CHR 0xCC, CHR 0xCD, CHR 0xCE, CHR 0xCF,
      CHR 0xD0, CHR 0xD1, CHR 0xD2, CHR 0xD3, CHR 0xD4, CHR 0xD5, CHR 0xD6,
      CHR 0xD8, CHR 0xD9, CHR 0xDA, CHR 0xDB, CHR 0xDC, CHR 0xDD, CHR 0xDE]"

definition latin1_smalls :: "char list" where
  "latin1_smalls =
     [CHR 0xE0, CHR 0xE1, CHR 0xE2, CHR 0xE3, CHR 0xE4, CHR 0xE5, CHR 0xE6, CHR 0xE7,
      CHR 0xE8, CHR 0xE9, CHR 0xEA, CHR 0xEB, CHR 0xEC, CHR 0xED, CHR 0xEE, CHR 0xEF,
      CHR 0xF0, CHR 0xF1, CHR 0xF2, CHR 0xF3, CHR 0xF4, CHR 0xF5, CHR 0xF6,
      CHR 0xF8, CHR 0xF9, CHR 0xFA, CHR 0xFB, CHR 0xFC, CHR 0xFD, CHR 0xFE]"

definition toLowerCase :: "string \<Rightarrow> string" where
  "toLowerCase s =
     map (\<lambda>c. case map_of (zip (''ABCDEFGHIJKLMNOPQRSTUVWXYZ'' @ latin1_capitals)
                                  (''abcdefghijklmnopqrstuvwxyz'' @ latin1_smalls)) c of
                 Some l \<Rightarrow> l
               | None \<Rightarrow> c) s"

text \<open>\<^verbatim>\<open>s.replace(pat, '')\<close> with a string pattern: the first occurrence of \<open>pat\<close> is removed.\<close>

fun remove_first :: "string \<Rightarrow> string \<Rightarrow> string" where
  "remove_first pat [] = []"
| "remove_first pat (c # cs) =
     (if startsWith (c # cs) pat then drop (length pat) (c # cs) else c # remove_first pat cs)"

text \<open>Decimal digits of a number, as template literals print it.\<close>

fun show_nat :: "nat \<Rightarrow> string" where
  "show_nat n =
     (if n < 10 then [''0123456789'' ! n]
      else show_nat (n div 10) @ [''0123456789'' ! (n mod 10)])"

declare show_nat.simps [simp del]

subsection \<open>Regular expressions\<close>

text \<open>
  Every regular expression of the extraction code is a sequence of character classes, each
  with a greedy quantifier \<^verbatim>\<open>{lo,hi}\<close> (\<open>None\<close> for no upper bound).  \<open>match_here\<close> is the
  backtracking matcher at a fixed start position: each item first takes as many characters as
  it can and gives them back one at a time while the rest of the pattern fails.  The result is
  the length of the match.
\<close>

type_synonym rx_item = "(char \<Rightarrow> bool) \<times> nat \<times> nat option"

fun first_some :: "'a option list \<Rightarrow> 'a option" where
  "first_some [] = None"
| "first_some (None # xs) = first_some xs"
| "first_some (Some x # xs) = Some x"

fun match_here :: "rx_item list \<Rightarrow> string \<Rightarrow> nat option" where
  "match_here [] s = Some 0"
| "match_here ((p, lo, hi) # its) s =
     (let avail = length (takeWhile p s);
          top = (case hi of None \<Rightarrow> avail | Some h \<Rightarrow> min h avail)
      in first_some
           (map (\<lambda>n. map_option (\<lambda>m. n + m) (match_here its (drop n s))) (rev [lo ..< Suc top])))"

text \<open>\<^verbatim>\<open>s.match(re)\<close> without the \<^verbatim>\<open>g\<close> flag: the match at the leftmost start position
  that has one (\<^verbatim>\<open>match[0]\<close>), or \<^verbatim>\<open>null\<close>.\<close>

fun rx_search :: "rx_item list \<Rightarrow> string \<Rightarrow> string option" where
  "rx_search its [] = (case match_here its [] of Some n \<Rightarrow> Some [] | None \<Rightarrow> None)"
| "rx_search its (c # cs) =
     (case match_here its (c # cs) of
        Some n \<Rightarrow> Some (take n (c # cs))
      | None \<Rightarrow> rx_search its cs)"

text \<open>\<^verbatim>\<open>s.match(re)\<close> with the \<^verbatim>\<open>g\<close> flag: all matches from left to right, each search
  resuming where the last match ended (one character further after an empty match).  The
  source reads \<^verbatim>\<open>null\<close> and the empty array alike.\<close>

function rx_match_all :: "rx_item list \<Rightarrow> string \<Rightarrow> string list" where
  "rx_match_all its s =
     (if s = [] then (case match_here its [] of Some n \<Rightarrow> [[]] | None \<Rightarrow> [])
      else (case match_here its s of
              Some n \<Rightarrow> take n s # rx_match_all its (drop (max n 1) s)
            | None \<Rightarrow> rx_match_all its (tl s)))"
  by pat_completeness auto
termination
  by (relation "measure (\<lambda>(its, s). length s)") auto

declare rx_match_all.simps [simp del]

definition lit :: "char \<Rightarrow> rx_item" where
  "lit c = ((\<lambda>x. x = c), 1, Some 1)"


section \<open>Records of the scrape\<close>

text \<open>
  The object pushed by the summary extraction has the eight keys \<^verbatim>\<open>name\<close> to
  \<^verbatim>\<open>placeUrl\<close>; \<^verbatim>\<open>null\<close> is \<open>None\<close>.  The keys \<^verbatim>\<open>hours\<close>, \<^verbatim>\<open>category\<close> and
  \<^verbatim>\<open>description\<close> exist only on the object built by \<^verbatim>\<open>extractBusinessDetails\<close>: for
  them the outer \<open>None\<close> says that the object does not have the key.
\<close>

text \<open>
  A JavaScript number that is not \<^verbatim>\<open>NaN\<close> and not negative: a double, given by its exact
  rational value, or \<^verbatim>\<open>Infinity\<close>.  \<open>to_double\<close> is the conversion of a positive real
  value to the nearest double, ties to the even significand: below the normal range the
  spacing of the doubles stays at \<open>2 ^ -1074\<close>, and a result of \<open>2 ^ 1024\<close> or more is
  \<^verbatim>\<open>Infinity\<close>.
\<close>

datatype number = Finite rat | Infinity

fun bit_length :: "nat \<Rightarrow> nat" where
  "bit_length n = (if n = 0 then 0 else Suc (bit_length (n div 2)))"

declare bit_length.simps [simp del]

definition pow2 :: "int \<Rightarrow> rat" where
  "pow2 k = (if 0 \<le> k then 2 ^ nat k else 1 / 2 ^ nat (- k))"

text \<open>The exponent \<open>e\<close> with \<open>2 ^ e \<le> x < 2 ^ (e + 1)\<close>, for \<open>x > 0\<close>.\<close>

definition binary_exponent :: "rat \<Rightarrow> int" where
  "binary_exponent x =
     (if 1 \<le> x then int (bit_length (nat \<lfloor>x\<rfloor>)) - 1
      else - int (bit_length (nat \<lceil>1 / x\<rceil> - 1)))"

definition to_double :: "rat \<Rightarrow> number" where
  "to_double x =
     (if x \<le> 0 then Finite 0
      else (let e = max (binary_exponent x) (- 1022);
                ulp = pow2 (e - 52);
                m = x / ulp;
                f = \<lfloor>m\<rfloor>;
                n = (if m - of_int f > 1 / 2 \<or> (m - of_int f = 1 / 2 \<and> odd f) then f + 1 else f);
                y = of_int n * ulp
            in if pow2 1024 \<le> y then Infinity else Finite y))"

record business =
  name :: string
  rating :: "number option"
  reviewCount :: "number option"
  address :: "string option"
  phone :: "string option"
  website :: "string option"
  placeId :: "string option"
  placeUrl :: "string option"
  hours :: "string option option"
  category :: "string option option"
  description :: "string option option"

section \<open>Duplicate removal of \<^verbatim>\<open>scrapeGoogleMaps\<close> (scraper.js, lines 519-522)\<close>

text \<open>\<^verbatim>\<open>self.findIndex(p)\<close>: the index of the first element that satisfies \<open>p\<close>, or -1.\<close>

fun findIndex :: "('a \<Rightarrow> bool) \<Rightarrow> 'a list \<Rightarrow> int" where
  "findIndex p [] = -1"
| "findIndex p (x # xs) =
     (if p x then 0 else (let i = findIndex p xs in if i = -1 then -1 else i + 1))"

text \<open>\<^verbatim>\<open>results.filter((business, index, self) =>
  index === self.findIndex(b => b.name === business.name))\<close>\<close>

definition uniqueResults :: "business list \<Rightarrow> business list" where
  "uniqueResults results =
     map snd (filter (\<lambda>(index, business).
                         int index = findIndex (\<lambda>b. name b = name business) results)
                (enumerate 0 results))"


section \<open>Summary extraction of \<^verbatim>\<open>scrapeGoogleMaps\<close> (scraper.js, lines 409-517)\<close>

text \<open>\<^verbatim>\<open>a || 'literal'\<close> where the right operand is a string.\<close>

definition or_else :: "string option \<Rightarrow> string \<Rightarrow> string" where
  "or_else a d = (case a of None \<Rightarrow> d | Some s \<Rightarrow> if s = [] then d else s)"

text \<open>
  What the extraction script reads from a DOM element: its \<^verbatim>\<open>aria-label\<close> attribute, its
  \<^verbatim>\<open>textContent\<close> and its \<^verbatim>\<open>href\<close> attribute.  A card is a matched element together
  with the elements that the fixed selector chains of the script find inside it (\<open>None\<close> when a
  chain finds nothing); \<open>element_href\<close> is the \<^verbatim>\<open>href\<close> property of the element itself.
\<close>

record node =
  aria_label :: "string option"
  text_content :: string
  href_attr :: "string option"

record card =
  element :: node
  element_href :: "string option"
  nameElement :: "node option"
  ratingElement :: "node option"
  reviewElement :: "node option"
  addressElement :: "node option"
  phoneElement :: "node option"
  websiteElement :: "node option"
  linkElement :: "node option"

text \<open>The regular expressions \<^verbatim>\<open>/(\d+\.?\d*)/\<close>, \<^verbatim>\<open>/(\d+[\d,]*)/\<close>,
  \<^verbatim>\<open>/\d[\d\s\-\(\)]+/\<close> and \<^verbatim>\<open>/\/place\/([^\/]+)/\<close>.\<close>

definition rating_rx :: "rx_item list" where
  "rating_rx = [(is_digit, 1, None), ((\<lambda>c. c = CHR ''.''), 0, Some 1), (is_digit, 0, None)]"

definition review_rx :: "rx_item list" where
  "review_rx = [(is_digit, 1, None), ((\<lambda>c. is_digit c \<or> c = CHR '',''), 0, None)]"

definition card_phone_rx :: "rx_item list" where
  "card_phone_rx =
     [(is_digit, 1, Some 1), ((\<lambda>c. is_digit c \<or> is_space c \<or> c \<in> set ''-()''), 1, None)]"

definition place_rx :: "rx_item list" where
  "place_rx = map lit ''/place/'' @ [((\<lambda>c. c \<noteq> CHR ''/''), 1, None)]"

definition nat_of_digits :: "string \<Rightarrow> nat" where
  "nat_of_digits ds = fold (\<lambda>c n. 10 * n + (of_char c - 48)) ds 0"

text \<open>\<^verbatim>\<open>parseFloat\<close> on a match of \<open>rating_rx\<close> and \<^verbatim>\<open>parseInt\<close> on a string of
  digits: the double nearest to the value that the decimal numeral denotes.\<close>

definition parseFloat :: "string \<Rightarrow> number" where
  "parseFloat s =
     (let whole = takeWhile is_digit s;
          frac = takeWhile is_digit (drop 1 (dropWhile is_digit s))
      in to_double (of_nat (nat_of_digits whole) + of_nat (nat_of_digits frac) / 10 ^ length frac))"

definition parseInt :: "string \<Rightarrow> number" where
  "parseInt s = to_double (of_nat (nat_of_digits (takeWhile is_digit s)))"

definition is_maps_link :: "string \<Rightarrow> bool" where
  "is_maps_link w = (str_includes w ''google.com/maps'' \<or> str_includes w ''maps.google.com'')"

definition fallback_name :: "nat \<Rightarrow> string" where
  "fallback_name index = ''Business '' @ show_nat (index + 1)"

text \<open>
  The callback of \<^verbatim>\<open>businessElements.forEach((element, index) => ...)\<close>: \<open>Some\<close> of the
  object it pushes, \<open>None\<close> when it pushes nothing.
\<close>

definition extract_card :: "nat \<Rightarrow> card \<Rightarrow> business option" where
  "extract_card index c =
     (let name = or_else
                   (js_or (map_option (\<lambda>n. trim (text_content n)) (nameElement c))
                      (js_or (map_option trim (aria_label (element c)))
                         (Some (trim (text_content (element c))))))
                   (fallback_name index);
          ratingText = or_else
                         (js_or (Option.bind (ratingElement c) aria_label)
                            (map_option text_content (ratingElement c))) [];
          rating = map_option parseFloat (rx_search rating_rx ratingText);
          reviewText = or_else
                         (js_or (Option.bind (reviewElement c) aria_label)
                            (map_option text_content (reviewElement c))) [];
          reviewCount = map_option (\<lambda>m. parseInt (filter (\<lambda>ch. ch \<noteq> CHR '','') m))
                          (rx_search review_rx reviewText);
          address = js_or (map_option (\<lambda>n. trim (text_content n)) (addressElement c)) None;
          phone = js_or (Option.bind (Option.bind (phoneElement c) aria_label)
                           (rx_search card_phone_rx)) None;
          website0 = js_or (Option.bind (websiteElement c) href_attr) None;
          website = (case website0 of
                       None \<Rightarrow> None
                     | Some w \<Rightarrow> if is_maps_link w then None else Some w);
          placeUrl = js_or (Option.bind (linkElement c) href_attr) None;
          placeId = (case placeUrl of
                       None \<Rightarrow> None
                     | Some u \<Rightarrow> map_option (drop 7) (rx_search place_rx u))
      in if name \<noteq> [] \<and> name \<noteq> fallback_name index
         then Some \<lparr>name = name, rating = rating, reviewCount = reviewCount, address = address,
                     phone = phone, website = website, placeId = placeId,
                     placeUrl = (case placeUrl of
                                   None \<Rightarrow> None
                                 | Some u \<Rightarrow> if startsWith u ''http'' then Some u
                                             else Some (''https://www.google.com'' @ u)),
                     hours = None, category = None, description = None\<rparr>
         else None)"

text \<open>
  The collection of the elements to extract: the matches of the six selectors, in order,
  without the elements whose identifier (the first 50 characters of the text followed by
  the link target) was seen before.
\<close>

definition element_identifier :: "card \<Rightarrow> string" where
  "element_identifier el =
     take 50 (text_content (element el))
       @ or_else (js_or (element_href el) (href_attr (element el))) []"

definition collect_elements :: "card list list \<Rightarrow> card list" where
  "collect_elements matches =
     fst (fold (\<lambda>el (businessElements, seenElements).
                  if element_identifier el \<in> set seenElements
                  then (businessElements, seenElements)
                  else (businessElements @ [el], element_identifier el # seenElements))
            (concat matches) ([], []))"

definition extract_businesses :: "card list list \<Rightarrow> business list" where
  "extract_businesses matches =
     List.map_filter (\<lambda>(index, el). extract_card index el) (enumerate 0 (collect_elements matches))"


section \<open>The detail page script of \<^verbatim>\<open>extractBusinessDetails\<close>\<close>

text \<open>Source: utils/detailExtractor.js (src/unnamed/part_002), lines 490-799.\<close>

text \<open>
  The DOM of the detail page, as far as the script queries it.  A \<open>control\<close> is the Phone or
  Website button (with the link target of its closest enclosing anchor and its title); a
  \<open>contact\<close> is an element of class \<^verbatim>\<open>Io6YTe fontBodyMedium\<close> (with the targets of the
  first \<^verbatim>\<open>tel:\<close> and \<^verbatim>\<open>http\<close> links inside it and the text of its previous sibling); an
  \<open>anchor\<close> is an \<^verbatim>\<open>a[href^="http"]\<close> element (whether it lies inside a Website control
  or inside the main panel, and what \<^verbatim>\<open>new URL(href).hostname\<close> gives, which throws on
  an invalid URL).
\<close>

record control = node +
  closest_a_href :: "string option"
  title_attr :: "string option"

record contact = node +
  telLink :: "string option"
  httpLink :: "string option"
  previousText :: "string option"

record anchor = node +
  in_website_control :: bool
  in_main_panel :: bool
  url_hostname :: "error + string"

record main_section =
  contactElements :: "contact list"
  telLinks :: "node list"
  innerText :: "string option"
  panel_text_content :: string

record detail_dom =
  panelName :: "string option"
  phoneButton :: "control option"
  mainPanel :: "main_section option"
  websiteButton :: "control option"
  linksInMainSection :: "anchor list option"
  contactInfoElements :: "contact list"
  allLinks :: "anchor list"
  addressElements :: "node option list"
  hoursElement :: "node option"
  categoryElement :: "node option"

text \<open>The object \<^verbatim>\<open>details\<close> that the script returns (its unused key
  \<^verbatim>\<open>additionalInfo\<close> is left out).\<close>

record details =
  detail_phone :: "string option"
  detail_website :: "string option"
  detail_address :: "string option"
  detail_hours :: "string option"
  detail_category :: "string option"
  detail_description :: "string option"
  verifiedBusinessName :: "string option"

subsection \<open>Phone\<close>

text \<open>\<^verbatim>\<open>/[\d\s\+\-\(\)]{7,}/\<close>, and the two patterns of the fourth strategy,
  \<^verbatim>\<open>/\+?[\d\s\-\(\)]{10,}/g\<close> and
  \<^verbatim>\<open>/\+?\d{1,4}[\s\-]?\d{1,4}[\s\-]?\d{1,4}[\s\-]?\d{1,9}/g\<close>.\<close>

definition detail_phone_rx :: "rx_item list" where
  "detail_phone_rx = [((\<lambda>c. is_digit c \<or> is_space c \<or> c \<in> set ''+-()''), 7, None)]"

definition phonePatterns :: "rx_item list list" where
  "phonePatterns =
     [[((\<lambda>c. c = CHR ''+''), 0, Some 1),
       ((\<lambda>c. is_digit c \<or> is_space c \<or> c \<in> set ''-()''), 10, None)],
      [((\<lambda>c. c = CHR ''+''), 0, Some 1),
       (is_digit, 1, Some 4), ((\<lambda>c. is_space c \<or> c = CHR ''-''), 0, Some 1),
       (is_digit, 1, Some 4), ((\<lambda>c. is_space c \<or> c = CHR ''-''), 0, Some 1),
       (is_digit, 1, Some 4), ((\<lambda>c. is_space c \<or> c = CHR ''-''), 0, Some 1),
       (is_digit, 1, Some 9)]]"

text \<open>\<^verbatim>\<open>if (phoneText.startsWith('tel:')) phoneText = phoneText.replace('tel:', '').trim()\<close>\<close>

definition strip_tel :: "string \<Rightarrow> string" where
  "strip_tel phoneText =
     (if startsWith phoneText ''tel:'' then trim (remove_first ''tel:'' phoneText) else phoneText)"

text \<open>\<^verbatim>\<open>digitsOnly.length >= 7 && digitsOnly.length <= 15\<close>\<close>

definition valid_phone_length :: "string \<Rightarrow> bool" where
  "valid_phone_length p = (length (digitsOnly p) \<ge> 7 \<and> length (digitsOnly p) \<le> 15)"

text \<open>Strategy 1: the Phone button.  The match is stored as it is, without a check of its
  digits.\<close>

definition phone_strategy1 :: "detail_dom \<Rightarrow> string option" where
  "phone_strategy1 doc =
     (case phoneButton doc of
        None \<Rightarrow> None
      | Some b \<Rightarrow>
          (let phoneText = js_or (aria_label b)
                             (js_or (Some (text_content b))
                                (js_or (href_attr b) (js_or (closest_a_href b) (title_attr b))))
           in case phoneText of
                None \<Rightarrow> None
              | Some t \<Rightarrow>
                  if t = [] then None
                  else map_option trim (rx_search detail_phone_rx (strip_tel t))))"

text \<open>Strategy 2: the first contact element of the main section that mentions a phone and
  holds a number of valid length.\<close>

definition contact_phone :: "contact \<Rightarrow> string option" where
  "contact_phone el =
     (let text = or_else (js_or (Some (text_content el)) (aria_label el)) [];
          link = telLink el
      in if str_includes (toLowerCase text) ''phone'' \<or> str_includes (toLowerCase text) ''call''
            \<or> link \<noteq> None
         then (let phoneText = (case link of Some h \<Rightarrow> h | None \<Rightarrow> text)
               in if phoneText = [] then None
                  else (case rx_search detail_phone_rx (strip_tel phoneText) of
                          None \<Rightarrow> None
                        | Some m \<Rightarrow>
                            if valid_phone_length (trim m) then Some (trim m) else None))
         else None)"

definition phone_strategy2 :: "main_section \<Rightarrow> string option" where
  "phone_strategy2 m = first_some (map contact_phone (contactElements m))"

text \<open>Strategy 3: the first \<^verbatim>\<open>tel:\<close> link of the main panel with a number of valid length.\<close>

definition tel_phone :: "node \<Rightarrow> string option" where
  "tel_phone link =
     (case href_attr link of
        None \<Rightarrow> None
      | Some href \<Rightarrow>
          if href = [] then None
          else (let phone = trim (remove_first ''tel:'' href)
                in if length phone \<ge> 7 \<and> valid_phone_length phone then Some phone else None))"

definition phone_strategy3 :: "main_section \<Rightarrow> string option" where
  "phone_strategy3 m = first_some (map tel_phone (telLinks m))"

text \<open>Strategy 4: the first pattern with a match of valid length in the text of the main
  panel.\<close>

definition pattern_phone :: "string \<Rightarrow> rx_item list \<Rightarrow> string option" where
  "pattern_phone panelText pattern =
     (case find valid_phone_length (rx_match_all pattern panelText) of
        None \<Rightarrow> None
      | Some validPhone \<Rightarrow> if validPhone = [] then None else Some (trim validPhone))"

definition phone_strategy4 :: "main_section \<Rightarrow> string option" where
  "phone_strategy4 m =
     (let panelText = or_else (js_or (innerText m) (Some (panel_text_content m))) []
      in first_some (map (pattern_phone panelText) phonePatterns))"

text \<open>\<^verbatim>\<open>if (!details.phone) { ... }\<close>: the next strategy runs while the value is falsy, and
  stores its result only when it has one.\<close>

definition unless_found :: "string option \<Rightarrow> string option \<Rightarrow> string option" where
  "unless_found current next =
     (if truthy current then current else (case next of None \<Rightarrow> current | Some v \<Rightarrow> Some v))"

definition extract_phone :: "detail_dom \<Rightarrow> string option" where
  "extract_phone doc =
     (let p1 = phone_strategy1 doc;
          p2 = unless_found p1 (Option.bind (mainPanel doc) phone_strategy2);
          p3 = unless_found p2 (Option.bind (mainPanel doc) phone_strategy3)
      in unless_found p3 (Option.bind (mainPanel doc) phone_strategy4))"


subsection \<open>Website\<close>

text \<open>\<^verbatim>\<open>href && href.startsWith('http')\<close> and none of the listed substrings in
  \<open>href\<close>.\<close>

definition http_without :: "string list \<Rightarrow> string \<Rightarrow> bool" where
  "http_without denied href =
     (href \<noteq> [] \<and> startsWith href ''http'' \<and> list_all (\<lambda>d. \<not> str_includes href d) denied)"

definition social_domains :: "string list" where
  "social_domains = [''google.com'', ''maps.google.com'', ''youtube.com'', ''facebook.com'',
     ''instagram.com'', ''twitter.com'', ''linkedin.com'']"

definition excludedDomains :: "string list" where
  "excludedDomains = [''google.com'', ''maps.google.com'', ''youtube.com'', ''facebook.com'',
     ''instagram.com'', ''twitter.com'', ''linkedin.com'', ''pinterest.com'',
     ''tumblr.com'', ''reddit.com'', ''github.com'', ''stackoverflow.com'']"

text \<open>Strategy 1: the Website button.\<close>

definition website_strategy1 :: "detail_dom \<Rightarrow> string option" where
  "website_strategy1 doc =
     (case websiteButton doc of
        None \<Rightarrow> None
      | Some b \<Rightarrow>
          (case js_or (href_attr b) (closest_a_href b) of
             None \<Rightarrow> None
           | Some href \<Rightarrow>
               if http_without [''google.com/maps'', ''maps.google.com'', ''google.com/search''] href
               then Some href else None))"

text \<open>Strategy 2: the first link of the main section that is marked as the website.\<close>

definition marked_website :: "anchor \<Rightarrow> string option" where
  "marked_website link =
     (let ariaLabel = or_else (map_option toLowerCase (aria_label link)) [];
          text = toLowerCase (text_content link)
      in case href_attr link of
           None \<Rightarrow> None
         | Some href \<Rightarrow>
             if http_without social_domains href
                \<and> (str_includes ariaLabel ''website'' \<or> str_includes ariaLabel ''visit website''
                     \<or> str_includes text ''website'' \<or> in_website_control link)
             then Some href else None)"

definition website_strategy2 :: "detail_dom \<Rightarrow> string option" where
  "website_strategy2 doc =
     (case linksInMainSection doc of
        None \<Rightarrow> None
      | Some links \<Rightarrow> first_some (map marked_website links))"

text \<open>Strategy 3: the first contact element whose link stands in a website context.\<close>

definition contact_website :: "contact \<Rightarrow> string option" where
  "contact_website el =
     (case httpLink el of
        None \<Rightarrow> None
      | Some href \<Rightarrow>
          (let parentText = toLowerCase (text_content el)
           in if http_without social_domains href
                 \<and> (str_includes parentText ''website'' \<or> str_includes parentText ''www.''
                      \<or> (case previousText el of
                            None \<Rightarrow> False
                          | Some t \<Rightarrow> str_includes (toLowerCase t) ''website''))
              then Some href else None))"

definition website_strategy3 :: "detail_dom \<Rightarrow> string option" where
  "website_strategy3 doc = first_some (map contact_website (contactInfoElements doc))"

text \<open>\<^verbatim>\<open>/^https?:\/\/[a-zA-Z0-9.-]+\.[a-zA-Z]{2,}/\<close>\<close>

definition is_alpha :: "char \<Rightarrow> bool" where
  "is_alpha c = (c \<in> set ''abcdefghijklmnopqrstuvwxyzABCDEFGHIJKLMNOPQRSTUVWXYZ'')"

definition url_rx :: "rx_item list" where
  "url_rx = map lit ''http'' @ [((\<lambda>c. c = CHR ''s''), 0, Some 1)] @ map lit ''://''
     @ [((\<lambda>c. is_alpha c \<or> is_digit c \<or> c \<in> set ''.-''), 1, None), lit CHR ''.'',
        (is_alpha, 2, None)]"

text \<open>Strategy 4: the first link of the document, outside the excluded domains, that lies
  in the main panel and looks like a URL.  \<^verbatim>\<open>new URL(href)\<close> throws on an invalid
  \<open>href\<close>, and nothing in the script catches it.\<close>

fun website_strategy4 :: "anchor list \<Rightarrow> error + string option" where
  "website_strategy4 [] = Inr None"
| "website_strategy4 (link # links) =
     (case href_attr link of
        None \<Rightarrow> website_strategy4 links
      | Some href \<Rightarrow>
          if href \<noteq> [] \<and> startsWith href ''http'' then
            (case url_hostname link of
               Inl e \<Rightarrow> Inl e
             | Inr hostname \<Rightarrow>
                 if list_ex (\<lambda>excluded. str_includes (toLowerCase hostname) excluded)
                      excludedDomains
                 then website_strategy4 links
                 else if (in_main_panel link \<or> in_website_control link)
                         \<and> match_here url_rx href \<noteq> None
                 then Inr (Some href)
                 else website_strategy4 links)
          else website_strategy4 links)"

text \<open>The four strategies and the final validation of the script.\<close>

definition extract_website :: "detail_dom \<Rightarrow> error + string option" where
  "extract_website doc =
     (let w1 = website_strategy1 doc;
          w2 = unless_found w1 (website_strategy2 doc);
          w3 = unless_found w2 (website_strategy3 doc)
      in case (if truthy w3 then Inr w3
               else (case website_strategy4 (allLinks doc) of
                       Inl e \<Rightarrow> Inl e
                     | Inr w \<Rightarrow> Inr (unless_found w3 w))) of
           Inl e \<Rightarrow> Inl e
         | Inr None \<Rightarrow> Inr None
         | Inr (Some w) \<Rightarrow>
             if w \<noteq> [] \<and> (str_includes w ''google.com/maps'' \<or> str_includes w ''maps.google.com''
                            \<or> str_includes w ''google.com/search'')
             then Inr None else Inr (Some w))"

subsection \<open>Address, hours, category\<close>

definition address_of :: "node option \<Rightarrow> string option" where
  "address_of found =
     (case found of
        None \<Rightarrow> None
      | Some el \<Rightarrow>
          (case js_or (Some (text_content el)) (aria_label el) of
             None \<Rightarrow> None
           | Some addressText \<Rightarrow>
               if length addressText > 10 then Some (trim addressText) else None))"

definition extract_address :: "detail_dom \<Rightarrow> string option" where
  "extract_address doc = first_some (map address_of (addressElements doc))"

definition extract_hours :: "detail_dom \<Rightarrow> string option" where
  "extract_hours doc =
     (case hoursElement doc of
        None \<Rightarrow> None
      | Some el \<Rightarrow> js_or (Some (trim (text_content el))) (aria_label el))"

definition extract_category :: "detail_dom \<Rightarrow> string option" where
  "extract_category doc = map_option (\<lambda>el. trim (text_content el)) (categoryElement doc)"

text \<open>The script: the value of the second \<^verbatim>\<open>page.evaluate\<close>, or the error thrown inside
  it.  \<^verbatim>\<open>description\<close> is initialised to \<^verbatim>\<open>null\<close> and never assigned.\<close>

definition detail_script :: "detail_dom \<Rightarrow> error + details" where
  "detail_script doc =
     (case extract_website doc of
        Inl e \<Rightarrow> Inl e
      | Inr w \<Rightarrow>
          Inr \<lparr>detail_phone = extract_phone doc, detail_website = w,
               detail_address = extract_address doc, detail_hours = extract_hours doc,
               detail_category = extract_category doc, detail_description = None,
               verifiedBusinessName = panelName doc\<rparr>)"


section \<open>\<^verbatim>\<open>extractBusinessDetails\<close> (src/unnamed/part_002, lines 422-963)\<close>

text \<open>\<^verbatim>\<open>w && !w.includes('google.com/maps') && !w.includes('maps.google.com') ? w : null\<close>\<close>

definition keep_non_maps :: "string option \<Rightarrow> string option" where
  "keep_non_maps w =
     (case w of
        None \<Rightarrow> None
      | Some s \<Rightarrow> if s \<noteq> [] \<and> \<not> is_maps_link s then Some s else None)"

text \<open>The merge of the detail page values into the summary (lines 809-870): the object
  \<^verbatim>\<open>{...business, phone: finalPhone, website: finalWebsite, ...}\<close>.\<close>

definition merge_details :: "business \<Rightarrow> details \<Rightarrow> business" where
  "merge_details business detailedInfo =
     (let detailWebsite = keep_non_maps (detail_website detailedInfo);
          originalWebsite = keep_non_maps (website business);
          chosen = (if truthy detailWebsite \<and> truthy originalWebsite then detailWebsite
                    else if truthy detailWebsite then detailWebsite
                    else if truthy originalWebsite then originalWebsite
                    else None);
          finalWebsite = (case chosen of
                            None \<Rightarrow> None
                          | Some w \<Rightarrow> if w \<noteq> [] \<and> is_maps_link w then None else Some w);
          detailPhone = detail_phone detailedInfo;
          originalPhone = phone business;
          finalPhone = (if truthy detailPhone then detailPhone
                        else if truthy originalPhone then originalPhone
                        else None)
      in business\<lparr>phone := finalPhone, website := finalWebsite,
                   address := js_or (detail_address detailedInfo) (address business),
                   hours := Some (detail_hours detailedInfo),
                   category := Some (detail_category detailedInfo),
                   description := Some (detail_description detailedInfo)\<rparr>)"

text \<open>
  What the page does during one call.  \<open>goto_place\<close> is \<^verbatim>\<open>page.goto(business.placeUrl)\<close>,
  \<open>load_wait\<close> the \<^verbatim>\<open>waitForTimeout(3000)\<close> after it, \<open>title_check\<close> the first
  \<^verbatim>\<open>page.evaluate\<close> (its boolean only selects a console warning), \<open>settle_wait\<close> the
  \<^verbatim>\<open>waitForTimeout(1000)\<close>, and \<open>detail_eval\<close> the second \<^verbatim>\<open>page.evaluate\<close>: a
  rejection of the call itself, or the document that the script runs on.  The wait for the
  Phone or Website control, the navigation back to the list and the recovery steps of the
  handler all swallow their errors and take no part in the result.
\<close>

record detail_visit =
  goto_place :: "error + unit"
  load_wait :: "error + unit"
  title_check :: "error + bool"
  settle_wait :: "error + unit"
  detail_eval :: "error + detail_dom"

text \<open>The inner \<^verbatim>\<open>try\<close> block (lines 433-461): the first rejection among its three
  awaits.\<close>

definition navigate_to_place :: "detail_visit \<Rightarrow> error + unit" where
  "navigate_to_place v =
     (case goto_place v of
        Inl e \<Rightarrow> Inl e
      | Inr _ \<Rightarrow>
          (case load_wait v of
             Inl e \<Rightarrow> Inl e
           | Inr _ \<Rightarrow> (case title_check v of Inl e \<Rightarrow> Inl e | Inr _ \<Rightarrow> Inr ())))"

text \<open>The body of the outer \<^verbatim>\<open>try\<close>: \<open>Inl\<close> is an error that reaches the outer
  \<^verbatim>\<open>catch\<close>, \<open>Inr\<close> a value returned from inside the block.\<close>

definition detail_attempt :: "detail_visit \<Rightarrow> business \<Rightarrow> error + business" where
  "detail_attempt v business =
     (if truthy (placeUrl business) then
        (case navigate_to_place v of
           Inl e \<Rightarrow> Inr business
         | Inr _ \<Rightarrow>
             (case settle_wait v of
                Inl e \<Rightarrow> Inl e
              | Inr _ \<Rightarrow>
                  (case detail_eval v of
                     Inl e \<Rightarrow> Inl e
                   | Inr doc \<Rightarrow>
                       (case detail_script doc of
                          Inl e \<Rightarrow> Inl e
                        | Inr detailedInfo \<Rightarrow> Inr (merge_details business detailedInfo)))))
      else Inr business)"

text \<open>The function: \<open>Inl\<close> would be an error thrown to the caller.  The outer
  \<^verbatim>\<open>catch\<close> returns the original business.\<close>

definition extractBusinessDetails :: "detail_visit \<Rightarrow> business \<Rightarrow> error + business" where
  "extractBusinessDetails v business =
     (case detail_attempt v business of
        Inl error \<Rightarrow> Inr business
      | Inr result \<Rightarrow> Inr result)"

section \<open>The detail loop and \<^verbatim>\<open>scrapeGoogleMaps\<close> (scraper.js, lines 194-594)\<close>

text \<open>
  The callback \<^verbatim>\<open>onBusinessExtracted(business, query)\<close> may keep state of its own and may
  throw: it maps its state to an outcome and a new state.  \<open>None\<close> is the default
  \<^verbatim>\<open>null\<close>, for which nothing is called.
\<close>

type_synonym 'st sink = "business \<Rightarrow> string \<Rightarrow> 'st \<Rightarrow> (error + unit) \<times> 'st"

definition call_sink ::
  "'st sink option \<Rightarrow> business \<Rightarrow> string \<Rightarrow> 'st \<Rightarrow> (error + unit) \<times> 'st" where
  "call_sink onBusinessExtracted business query st =
     (case onBusinessExtracted of None \<Rightarrow> (Inr (), st) | Some f \<Rightarrow> f business query st)"

text \<open>The page during the loop body for one business: the detail visit, and the
  \<^verbatim>\<open>waitForTimeout(2000)\<close> after the callback (the check that follows it swallows its
  errors).\<close>

record visit =
  detail :: detail_visit
  delay :: "error + unit"

text \<open>The \<^verbatim>\<open>catch\<close> block of the loop body (lines 564-578): the original business is
  pushed and the callback is called again, outside any \<^verbatim>\<open>try\<close>.\<close>

definition on_error ::
  "'st sink option \<Rightarrow> string \<Rightarrow> business \<Rightarrow> business list \<Rightarrow> 'st
     \<Rightarrow> (error + business list) \<times> 'st" where
  "on_error onBusinessExtracted query business detailedResults st =
     (case call_sink onBusinessExtracted business query st of
        (Inl e, st') \<Rightarrow> (Inl e, st')
      | (Inr _, st') \<Rightarrow> (Inr (detailedResults @ [business]), st'))"

text \<open>One execution of the loop body (lines 531-578): \<open>Inl\<close> is an error that leaves the
  loop, \<open>Inr\<close> the new \<^verbatim>\<open>detailedResults\<close>.\<close>

definition process_business ::
  "'st sink option \<Rightarrow> string \<Rightarrow> visit \<Rightarrow> business \<Rightarrow> business list \<Rightarrow> 'st
     \<Rightarrow> (error + business list) \<times> 'st" where
  "process_business onBusinessExtracted query v business detailedResults st =
     (case extractBusinessDetails (detail v) business of
        Inl e \<Rightarrow> on_error onBusinessExtracted query business detailedResults st
      | Inr detailedBusiness \<Rightarrow>
          (case call_sink onBusinessExtracted detailedBusiness query st of
             (Inl e, st') \<Rightarrow>
               on_error onBusinessExtracted query business
                 (detailedResults @ [detailedBusiness]) st'
           | (Inr _, st') \<Rightarrow>
               (case delay v of
                  Inl e \<Rightarrow>
                    on_error onBusinessExtracted query business
                      (detailedResults @ [detailedBusiness]) st'
                | Inr _ \<Rightarrow> (Inr (detailedResults @ [detailedBusiness]), st'))))"

text \<open>\<^verbatim>\<open>for (let i = 0; i < uniqueResults.length; i++)\<close>, from index \<open>i\<close> on; \<open>visits i\<close>
  is the page during the body for \<^verbatim>\<open>uniqueResults[i]\<close>.\<close>

fun detail_loop ::
  "'st sink option \<Rightarrow> string \<Rightarrow> (nat \<Rightarrow> visit) \<Rightarrow> nat \<Rightarrow> business list \<Rightarrow> business list
     \<Rightarrow> 'st \<Rightarrow> (error + business list) \<times> 'st" where
  "detail_loop onBusinessExtracted query visits i [] detailedResults st =
     (Inr detailedResults, st)"
| "detail_loop onBusinessExtracted query visits i (business # rest) detailedResults st =
     (case process_business onBusinessExtracted query (visits i) business detailedResults st of
        (Inl e, st') \<Rightarrow> (Inl e, st')
      | (Inr pushed, st') \<Rightarrow>
          detail_loop onBusinessExtracted query visits (i + 1) rest pushed st')"

text \<open>
  The page during a whole scrape.  \<open>launch\<close> is \<^verbatim>\<open>puppeteer.launch\<close>; \<open>startup\<close> stands
  for the awaits from \<^verbatim>\<open>browser.newPage\<close> to the \<^verbatim>\<open>waitForTimeout(3000)\<close> before the
  scroll loop (new page, fingerprint setup, headers, delay, navigation to the search URL): a
  rejection of any of them is rethrown to the caller.  \<open>final_wait\<close> is the
  \<^verbatim>\<open>waitForTimeout(2000)\<close> after the loop, \<open>cards_eval\<close> the extraction
  \<^verbatim>\<open>page.evaluate\<close>, which rejects or runs on the matches of the six selectors, and
  \<open>browser_close\<close> the \<^verbatim>\<open>browser.close()\<close> of the \<^verbatim>\<open>finally\<close> block.
\<close>

record scrape_page =
  launch :: "error + unit"
  startup :: "error + unit"
  scrolling :: scroll_page
  final_wait :: "error + unit"
  cards_eval :: "error + card list list"
  visits :: "nat \<Rightarrow> visit"
  browser_close :: "error + unit"

text \<open>The \<^verbatim>\<open>try\<close> block after the launch.\<close>

definition scrape_session ::
  "scrape_page \<Rightarrow> string \<Rightarrow> 'st sink option \<Rightarrow> 'st \<Rightarrow> (error + business list) \<times> 'st" where
  "scrape_session pg query onBusinessExtracted st =
     (case startup pg of
        Inl e \<Rightarrow> (Inl e, st)
      | Inr _ \<Rightarrow>
          (case scroll_to_load (scrolling pg) of
             (s, Some e) \<Rightarrow> (Inl e, st)
           | (s, None) \<Rightarrow>
               (case final_wait pg of
                  Inl e \<Rightarrow> (Inl e, st)
                | Inr _ \<Rightarrow>
                    (case cards_eval pg of
                       Inl e \<Rightarrow> (Inl e, st)
                     | Inr matches \<Rightarrow>
                         detail_loop onBusinessExtracted query (visits pg) 0
                           (uniqueResults (extract_businesses matches)) [] st))))"

text \<open>The function: the result or the rethrown error of the session, unless closing the
  browser in the \<^verbatim>\<open>finally\<close> block throws.\<close>

definition scrapeGoogleMaps ::
  "scrape_page \<Rightarrow> string \<Rightarrow> 'st sink option \<Rightarrow> 'st \<Rightarrow> (error + business list) \<times> 'st" where
  "scrapeGoogleMaps pg query onBusinessExtracted st =
     (case launch pg of
        Inl e \<Rightarrow> (Inl e, st)
      | Inr _ \<Rightarrow>
          (case scrape_session pg query onBusinessExtracted st of
             (outcome, st') \<Rightarrow>
               (case browser_close pg of
                  Inl e \<Rightarrow> (Inl e, st')
                | Inr _ \<Rightarrow> (outcome, st'))))"

section \<open>Fingerprint of a session (scraper.js, lines 9-186)\<close>

text \<open>\<^verbatim>\<open>xs[Math.floor(r * xs.length)]\<close> for a value \<open>r\<close> of \<^verbatim>\<open>Math.random()\<close>, computed
  in exact arithmetic; \<^verbatim>\<open>undefined\<close> outside the array.\<close>

definition pick :: "'a list \<Rightarrow> real \<Rightarrow> 'a option" where
  "pick xs r =
     (let i = \<lfloor>r * real (length xs)\<rfloor>
      in if 0 \<le> i \<and> nat i < length xs then Some (xs ! nat i) else None)"

definition userAgents :: "string list" where
  "userAgents =
    [''Mozilla/5.0 (Windows NT 10.0; Win64; x64) AppleWebKit/537.36 (KHTML, like Gecko) Chrome/120.0.0.0 Safari/537.36'',
     ''Mozilla/5.0 (Windows NT 10.0; Win64; x64) AppleWebKit/537.36 (KHTML, like Gecko) Chrome/119.0.0.0 Safari/537.36'',
     ''Mozilla/5.0 (Windows NT 10.0; Win64; x64) AppleWebKit/537.36 (KHTML, like Gecko) Chrome/121.0.0.0 Safari/537.36'',
     ''Mozilla/5.0 (Windows NT 11.0; Win64; x64) AppleWebKit/537.36 (KHTML, like Gecko) Chrome/120.0.0.0 Safari/537.36'',
     ''Mozilla/5.0 (Macintosh; Intel Mac OS X 10_15_7) AppleWebKit/537.36 (KHTML, like Gecko) Chrome/120.0.0.0 Safari/537.36'',
     ''Mozilla/5.0 (Macintosh; Intel Mac OS X 10_15_7) AppleWebKit/537.36 (KHTML, like Gecko) Chrome/119.0.0.0 Safari/537.36'',
     ''Mozilla/5.0 (Macintosh; Intel Mac OS X 13_6_1) AppleWebKit/537.36 (KHTML, like Gecko) Chrome/120.0.0.0 Safari/537.36'',
     ''Mozilla/5.0 (Windows NT 10.0; Win64; x64; rv:121.0) Gecko/20100101 Firefox/121.0'',
     ''Mozilla/5.0 (Windows NT 10.0; Win64; x64; rv:120.0) Gecko/20100101 Firefox/120.0'',
     ''Mozilla/5.0 (Macintosh; Intel Mac OS X 10.15; rv:121.0) Gecko/20100101 Firefox/121.0'',
     ''Mozilla/5.0 (Macintosh; Intel Mac OS X 10.15; rv:120.0) Gecko/20100101 Firefox/120.0'',
     ''Mozilla/5.0 (Macintosh; Intel Mac OS X 10_15_7) AppleWebKit/605.1.15 (KHTML, like Gecko) Version/17.1 Safari/605.1.15'',
     ''Mozilla/5.0 (Macintosh; Intel Mac OS X 10_15_7) AppleWebKit/605.1.15 (KHTML, like Gecko) Version/17.0 Safari/605.1.15'',
     ''Mozilla/5.0 (Windows NT 10.0; Win64; x64) AppleWebKit/537.36 (KHTML, like Gecko) Chrome/120.0.0.0 Safari/537.36 Edg/120.0.0.0'',
     ''Mozilla/5.0 (Windows NT 10.0; Win64; x64) AppleWebKit/537.36 (KHTML, like Gecko) Chrome/119.0.0.0 Safari/537.36 Edg/119.0.0.0'',
     ''Mozilla/5.0 (X11; Linux x86_64) AppleWebKit/537.36 (KHTML, like Gecko) Chrome/120.0.0.0 Safari/537.36'']"

record viewport =
  width :: nat
  height :: nat

definition viewports :: "viewport list" where
  "viewports =
    [\<lparr>width = 1920, height = 1080\<rparr>, \<lparr>width = 1366, height = 768\<rparr>,
     \<lparr>width = 1536, height = 864\<rparr>, \<lparr>width = 1440, height = 900\<rparr>,
     \<lparr>width = 1280, height = 720\<rparr>, \<lparr>width = 1600, height = 900\<rparr>]"

definition getRandomUserAgent :: "real \<Rightarrow> string option" where
  "getRandomUserAgent r = pick userAgents r"

definition getRandomViewport :: "real \<Rightarrow> viewport option" where
  "getRandomViewport r = pick viewports r"

definition timezones :: "string list" where
  "timezones = [''America/New_York'', ''America/Los_Angeles'', ''America/Chicago'',
     ''Europe/London'', ''Asia/Karachi'']"

definition offsets :: "(string \<times> int) list" where
  "offsets = [(''America/New_York'', 300), (''America/Los_Angeles'', 480),
     (''America/Chicago'', 360), (''Europe/London'', 0), (''Asia/Karachi'', -300)]"

text \<open>
  What a document sees after the function given to \<^verbatim>\<open>page.evaluateOnNewDocument\<close> has
  run in it.  The function runs in every new document of the page, with the arguments
  \<open>ua\<close> and \<open>vp\<close> that were fixed when it was registered; \<open>r\<close> is the value of the
  \<^verbatim>\<open>Math.random()\<close> call inside it.  Reading the platform throws when \<open>ua\<close> is
  \<^verbatim>\<open>undefined\<close>, which no value of \<^verbatim>\<open>Math.random()\<close> (at least 0, below 1) produces.
\<close>

record document_identity =
  nav_userAgent :: "string option"
  nav_platform :: "error + string"
  screen_size :: "viewport option"
  randomTimezone :: "string option"
  timezoneOffset :: int

definition init_script :: "string option \<Rightarrow> viewport option \<Rightarrow> real \<Rightarrow> document_identity" where
  "init_script ua vp r =
     \<lparr>nav_userAgent = ua,
      nav_platform = (case ua of
                        None \<Rightarrow> Inl (Error ''TypeError'')
                      | Some u \<Rightarrow>
                          if str_includes u ''Windows'' then Inr ''Win32''
                          else if str_includes u ''Mac'' then Inr ''MacIntel''
                          else if str_includes u ''Linux'' then Inr ''Linux x86_64''
                          else Inr ''Win32''),
      screen_size = vp,
      randomTimezone = pick timezones r,
      timezoneOffset = (case Option.bind (pick timezones r) (map_of offsets) of
                          None \<Rightarrow> 0
                        | Some off \<Rightarrow> off)\<rparr>"

text \<open>
  The random values of one session: the two draws of \<^verbatim>\<open>setupFingerprintAvoidance\<close>
  (lines 67-68) and, for the \<open>k\<close>-th document that the page loads, the draw of the
  registered function in that document (line 145).
\<close>

record session_draws =
  userAgent_draw :: real
  viewport_draw :: real
  document_draw :: "nat \<Rightarrow> real"

text \<open>\<^verbatim>\<open>setupFingerprintAvoidance\<close>: the user agent and viewport that it sets on the page
  and passes to the registered function.\<close>

definition setupFingerprintAvoidance :: "session_draws \<Rightarrow> string option \<times> viewport option" where
  "setupFingerprintAvoidance s =
     (getRandomUserAgent (userAgent_draw s), getRandomViewport (viewport_draw s))"

text \<open>The fingerprint seen by the \<open>k\<close>-th document of the session.\<close>

definition document_fingerprint :: "session_draws \<Rightarrow> nat \<Rightarrow> document_identity" where
  "document_fingerprint s k =
     (case setupFingerprintAvoidance s of
        (userAgent, viewport) \<Rightarrow> init_script userAgent viewport (document_draw s k))"

text \<open>A session whose first document draws 0 and whose later documents draw 1/2.\<close>

definition two_draws :: session_draws where
  "two_draws = \<lparr>userAgent_draw = 0, viewport_draw = 0,
                document_draw = (\<lambda>k. if k = 0 then 0 else 1 / 2)\<rparr>"

section \<open>Properties of a website value\<close>




section \<open>Concrete inputs\<close>

text \<open>A summary record as the list view gives it, with and without a link to a detail
  page, and a second record.\<close>

definition cafe_blue :: business where
  "cafe_blue =
     \<lparr>name = ''Cafe Blue'', rating = Some (Finite (9 / 2)), reviewCount = Some (Finite 120),
      address = Some ''12 Mall Road, Lahore'', phone = Some ''555-1111'', website = None,
      placeId = Some ''Cafe+Blue'',
      placeUrl = Some ''https://www.google.com/maps/place/Cafe+Blue/data=xyz'',
      hours = None, category = None, description = None\<rparr>"

definition cafe_blue_unlinked :: business where
  "cafe_blue_unlinked = cafe_blue\<lparr>placeId := None, placeUrl := None\<rparr>"

definition tea_house :: business where
  "tea_house =
     \<lparr>name = ''Tea House'', rating = None, reviewCount = None, address = None, phone = None,
      website = Some ''https://teahouse.example/'', placeId = None, placeUrl = None,
      hours = None, category = None, description = None\<rparr>"

text \<open>A detail page without any of the queried elements, one whose Phone button is labelled
  with a six-digit number, one whose only phone is a \<^verbatim>\<open>tel:\<close> link of the main panel, and
  one with a Website button.\<close>

definition blank_page :: detail_dom where
  "blank_page =
     \<lparr>panelName = None, phoneButton = None, mainPanel = None, websiteButton = None,
      linksInMainSection = None, contactInfoElements = [], allLinks = [],
      addressElements = [None, None, None, None, None], hoursElement = None,
      categoryElement = None\<rparr>"

definition short_number_page :: detail_dom where
  "short_number_page =
     blank_page\<lparr>phoneButton :=
       Some \<lparr>aria_label = Some ''Phone: 111 222'', text_content = ''111 222'',
             href_attr = None, closest_a_href = None, title_attr = None\<rparr>\<rparr>"

definition tel_link_page :: detail_dom where
  "tel_link_page =
     blank_page\<lparr>mainPanel :=
       Some \<lparr>contactElements = [],
             telLinks = [\<lparr>aria_label = None, text_content = ''Call'',
                          href_attr = Some ''tel:+92 300 1234567''\<rparr>],
             innerText = Some ''Cafe Blue'', panel_text_content = ''Cafe Blue''\<rparr>\<rparr>"

definition website_page :: detail_dom where
  "website_page =
     blank_page\<lparr>panelName := Some ''Cafe Blue'',
       websiteButton :=
         Some \<lparr>aria_label = Some ''Website: cafeblue.example'', text_content = ''cafeblue.example'',
               href_attr = Some ''https://cafeblue.example/'', closest_a_href = None,
               title_attr = None\<rparr>\<rparr>"

text \<open>A visit whose navigation to the place times out, and a visit that reaches a page.\<close>

definition timeout_visit :: detail_visit where
  "timeout_visit =
     \<lparr>goto_place = Inl (Error ''Navigation timeout of 15000 ms exceeded''), load_wait = Inr (),
      title_check = Inr True, settle_wait = Inr (), detail_eval = Inr blank_page\<rparr>"

definition visit_of :: "detail_dom \<Rightarrow> detail_visit" where
  "visit_of doc =
     \<lparr>goto_place = Inr (), load_wait = Inr (), title_check = Inr True, settle_wait = Inr (),
      detail_eval = Inr doc\<rparr>"

text \<open>A result card whose phone element is labelled with a four-digit short code and whose
  first link points back into the map.\<close>

definition short_code_card :: card where
  "short_code_card =
     \<lparr>element = \<lparr>aria_label = Some ''Cafe Blue'', text_content = ''Cafe Blue 4.5'',
                  href_attr = None\<rparr>,
      element_href = None, nameElement = None, ratingElement = None, reviewElement = None,
      addressElement = None,
      phoneElement = Some \<lparr>aria_label = Some ''Phone: 1122'', text_content = [],
                           href_attr = None\<rparr>,
      websiteElement = Some \<lparr>aria_label = None, text_content = ''Cafe Blue'',
                             href_attr = Some ''https://maps.google.com/?cid=42''\<rparr>,
      linkElement = Some \<lparr>aria_label = None, text_content = ''Cafe Blue'',
                          href_attr = Some ''/maps/place/Cafe+Blue/data=xyz''\<rparr>\<rparr>"

text \<open>A callback that always throws, and one that throws on its first call only (its state
  counts the calls).\<close>

definition throwing_sink :: "unit sink" where
  "throwing_sink business query st = (Inl (Error ''sink failed''), st)"

definition flaky_sink :: "nat sink" where
  "flaky_sink business query calls =
     (if calls = 0 then (Inl (Error ''sink failed''), calls + 1) else (Inr (), calls + 1))"

text \<open>A scrape of a list that stays at one card, whose detail page has a Website button.\<close>

definition one_card_scrape :: scrape_page where
  "one_card_scrape =
     \<lparr>launch = Inr (), startup = Inr (), scrolling = steady_page 1, final_wait = Inr (),
      cards_eval = Inr [[short_code_card], [], [], [], [], []],
      visits = (\<lambda>i. \<lparr>detail = visit_of website_page, delay = Inr ()\<rparr>),
      browser_close = Inr ()\<rparr>"

text \<open>Visits during which every navigation to a place times out.\<close>

definition quiet_visits :: "nat \<Rightarrow> visit" where
  "quiet_visits i = \<lparr>detail = timeout_visit, delay = Inr ()\<rparr>"

text \<open>A list with two records of the same name and two names that differ only in case.\<close>

definition listed :: "business list" where
  "listed = [cafe_blue, tea_house, cafe_blue_unlinked, tea_house\<lparr>name := ''tea house''\<rparr>]"

text \<open>A result card whose first link is a search link on the map host, and a scrape of a
  list that stays at this one card, whose detail page shows none of the queried elements.\<close>

definition search_link_card :: card where
  "search_link_card =
     short_code_card\<lparr>websiteElement :=
       Some \<lparr>aria_label = None, text_content = ''Cafe Blue'',
             href_attr = Some ''https://www.google.com/search?q=cafe+blue''\<rparr>\<rparr>"

definition search_link_scrape :: scrape_page where
  "search_link_scrape =
     \<lparr>launch = Inr (), startup = Inr (), scrolling = steady_page 1, final_wait = Inr (),
      cards_eval = Inr [[search_link_card], [], [], [], [], []],
      visits = (\<lambda>i. \<lparr>detail = visit_of blank_page, delay = Inr ()\<rparr>),
      browser_close = Inr ()\<rparr>"

section \<open>Evaluation on concrete inputs\<close>

lemmas js_defs = truthy_def js_or_def or_else_def startsWith_def trim_def digitsOnly_def
  is_digit_def is_space_def is_alpha_def toLowerCase_def latin1_capitals_def latin1_smalls_def
  lit_def Let_def

lemmas card_defs = extract_card_def fallback_name_def show_nat.simps card_phone_rx_def
  rating_rx_def review_rx_def place_rx_def is_maps_link_def parseFloat_def parseInt_def
  nat_of_digits_def extract_businesses_def collect_elements_def element_identifier_def

lemmas script_defs = detail_script_def extract_phone_def phone_strategy1_def
  phone_strategy2_def phone_strategy3_def phone_strategy4_def contact_phone_def tel_phone_def
  pattern_phone_def phonePatterns_def detail_phone_rx_def strip_tel_def valid_phone_length_def
  unless_found_def extract_website_def website_strategy1_def website_strategy2_def
  website_strategy3_def marked_website_def contact_website_def http_without_def
  social_domains_def excludedDomains_def url_rx_def extract_address_def address_of_def
  extract_hours_def extract_category_def

lemmas enrich_defs = extractBusinessDetails_def detail_attempt_def navigate_to_place_def
  merge_details_def keep_non_maps_def is_maps_link_def

lemmas loop_defs = process_business_def on_error_def call_sink_def

lemmas scroll_defs = scroll_to_load_def scroll_init_def steady_page_def page_5_5_then_6_def
  observed_count_def scroll_iteration_def count_in_page_def maxScrollAttempts_def

lemmas input_defs = cafe_blue_def cafe_blue_unlinked_def tea_house_def blank_page_def
  short_number_page_def tel_link_page_def website_page_def timeout_visit_def visit_of_def
  short_code_card_def throwing_sink_def flaky_sink_def one_card_scrape_def quiet_visits_def
  listed_def search_link_card_def search_link_scrape_def

lemma one_card_result:
  "scrapeGoogleMaps one_card_scrape ''cafes'' (None :: unit sink option) () =
     (Inr [\<lparr>name = ''Cafe Blue'', rating = None, reviewCount = None, address = None,
            phone = Some ''1122'', website = Some ''https://cafeblue.example/'',
            placeId = Some ''Cafe+Blue'',
            placeUrl = Some ''https://www.google.com/maps/place/Cafe+Blue/data=xyz'',
            hours = Some None, category = Some None, description = Some None\<rparr>], ())"
  by (simp add: scrapeGoogleMaps_def scrape_session_def uniqueResults_def scroll_defs loop_defs
      card_defs enrich_defs script_defs input_defs js_defs)

section \<open>Properties of the scroll driver\<close>

lemma scroll_iteration_log:
  "scroll_iteration pg s = Continue s' \<Longrightarrow> length (attempt_log s') = length (attempt_log s) + 1"
  "scroll_iteration pg s = Break s' \<Longrightarrow>
     length (attempt_log s') = length (attempt_log s) + 1 \<and> scrollAttempts s' = scrollAttempts s"
  "scroll_iteration pg s = Thrown s' e \<Longrightarrow>
     length (attempt_log s') \<le> length (attempt_log s) + 1 \<and> scrollAttempts s' = scrollAttempts s"
  by (auto simp: scroll_iteration_def Let_def split: sum.splits if_splits)

lemma scroll_loop_bound:
  "length (attempt_log (fst (scroll_loop pg s)))
     \<le> length (attempt_log s) + (maxScrollAttempts - scrollAttempts s)
   \<and> scrollAttempts (fst (scroll_loop pg s)) \<le> max (scrollAttempts s) maxScrollAttempts"
proof (induction pg s rule: scroll_loop.induct)
  case (1 pg s)
  show ?case
  proof (cases "scrollAttempts s < maxScrollAttempts")
    case False
    then show ?thesis by simp
  next
    case True
    show ?thesis
    proof (cases "scroll_iteration pg s")
      case (Break s')
      with True scroll_iteration_log(2)[OF Break] show ?thesis
        by (subst (1 2) scroll_loop.simps) auto
    next
      case (Thrown s' e)
      with True scroll_iteration_log(3)[OF Thrown] show ?thesis
        by (subst (1 2) scroll_loop.simps) auto
    next
      case (Continue s')
      with "1.IH"[OF True Continue] True scroll_iteration_log(1)[OF Continue]
        scroll_iteration_Continue[OF Continue]
      show ?thesis
        by (subst (1 2) scroll_loop.simps) auto
    qed
  qed
qed

lemma scroll_iterations_bound:
  "scroll_iterations pg s \<le> maxScrollAttempts - scrollAttempts s"
proof (induction pg s rule: scroll_iterations.induct)
  case (1 pg s)
  show ?case
  proof (cases "scrollAttempts s < maxScrollAttempts")
    case False
    then show ?thesis by simp
  next
    case True
    show ?thesis
    proof (cases "scroll_iteration pg s")
      case (Continue s')
      with "1.IH"[OF True Continue] True scroll_iteration_Continue[OF Continue] show ?thesis
        by (subst scroll_iterations.simps) auto
    qed (use True in \<open>subst scroll_iterations.simps, simp\<close>)+
  qed
qed

text \<open>
  C9.  Whatever the page answers, the scroll loop returns (the function is total: its
  termination is proved from the counter alone), its body is executed at most 100 times, the
  counter never passes 100, and a loop entered with the counter at the cap exits at once
  without looking at the page.
\<close>

theorem scroll_loop_at_most_100_iterations:
  "scroll_iterations pg scroll_init \<le> 100
   \<and> length (attempt_log (fst (scroll_to_load pg))) \<le> 100
   \<and> scrollAttempts (fst (scroll_to_load pg)) \<le> 100
   \<and> scroll_loop pg (s\<lparr>scrollAttempts := maxScrollAttempts\<rparr>)
       = (s\<lparr>scrollAttempts := maxScrollAttempts\<rparr>, None)"
proof -
  have "length (attempt_log (fst (scroll_loop pg scroll_init))) \<le> 100"
    and "scrollAttempts (fst (scroll_loop pg scroll_init)) \<le> 100"
    using scroll_loop_bound[of pg scroll_init]
    by (simp_all add: scroll_init_def maxScrollAttempts_def)
  moreover have "scroll_iterations pg scroll_init \<le> 100"
    using scroll_iterations_bound[of pg scroll_init]
    by (simp add: scroll_init_def maxScrollAttempts_def)
  ultimately show ?thesis
    by (simp add: scroll_to_load_def)
qed

text \<open>
  C3 (as amended).  When the first three checks all find 5 results and the two nudges between
  them succeed, the loop stops at the third check: the first check sees growth from the initial
  \<^verbatim>\<open>previousCount = 0\<close>, the second and third are the two checks without growth.  The loop
  body has then run three times and \<^verbatim>\<open>scrollAttempts\<close> is 2, far from the cap.
\<close>

theorem scroll_stops_after_5_5_5:
  assumes "observed_count pg 0 = Some 5" and "observed_count pg 1 = Some 5"
    and "observed_count pg 2 = Some 5"
    and "nudge pg 0 = Inr ()" and "nudge pg 1 = Inr ()"
  shows "scroll_to_load pg =
           (\<lparr>previousCount = 5, currentCount = 5, scrollAttempts = 2, noChangeCount = 2,
             attempt_log = [(1, 5), (2, 5), (3, 5)]\<rparr>, None)
         \<and> scroll_iterations pg scroll_init = 3"
proof -
  from assms(1-3) obtain h0 h1 h2 where
    h: "selector_hits pg 0 = Inr h0" "count_in_page h0 = 5"
       "selector_hits pg 1 = Inr h1" "count_in_page h1 = 5"
       "selector_hits pg 2 = Inr h2" "count_in_page h2 = 5"
    by (auto simp: observed_count_def split: sum.splits)
  define s1 where "s1 = \<lparr>previousCount = 5, currentCount = 5, scrollAttempts = 1,
    noChangeCount = 0, attempt_log = [(1, 5)]\<rparr>"
  define s2 where "s2 = \<lparr>previousCount = 5, currentCount = 5, scrollAttempts = 2,
    noChangeCount = 1, attempt_log = [(1, 5), (2, 5)]\<rparr>"
  define s3 where "s3 = \<lparr>previousCount = 5, currentCount = 5, scrollAttempts = 2,
    noChangeCount = 2, attempt_log = [(1, 5), (2, 5), (3, 5)]\<rparr>"
  have i1: "scroll_iteration pg scroll_init = Continue s1"
    using h assms(4) by (simp add: scroll_iteration_def scroll_init_def s1_def Let_def)
  have i2: "scroll_iteration pg s1 = Continue s2"
    using h assms(5) by (simp add: scroll_iteration_def s1_def s2_def Let_def)
  have i3: "scroll_iteration pg s2 = Break s3"
    using h by (simp add: scroll_iteration_def s2_def s3_def Let_def)
  have "scroll_loop pg s2 = (s3, None)"
    using i3 by (subst scroll_loop.simps) (simp add: s2_def maxScrollAttempts_def)
  then have "scroll_loop pg s1 = (s3, None)"
    using i2 by (subst scroll_loop.simps) (simp add: s1_def maxScrollAttempts_def)
  then have l: "scroll_loop pg scroll_init = (s3, None)"
    using i1 by (subst scroll_loop.simps) (simp add: scroll_init_def maxScrollAttempts_def)
  have "scroll_iterations pg s2 = 1"
    using i3 by (subst scroll_iterations.simps) (simp add: s2_def maxScrollAttempts_def)
  then have "scroll_iterations pg s1 = 2"
    using i2 by (subst scroll_iterations.simps) (simp add: s1_def maxScrollAttempts_def)
  then have "scroll_iterations pg scroll_init = 3"
    using i1 by (subst scroll_iterations.simps) (simp add: scroll_init_def maxScrollAttempts_def)
  with l show ?thesis
    by (simp add: scroll_to_load_def s3_def)
qed

theorem scroll_stops_after_5_5_5_witness:
  "observed_count (steady_page 5) 0 = Some 5 \<and> observed_count (steady_page 5) 1 = Some 5
   \<and> observed_count (steady_page 5) 2 = Some 5
   \<and> nudge (steady_page 5) 0 = Inr () \<and> nudge (steady_page 5) 1 = Inr ()
   \<and> scroll_to_load (steady_page 5) =
       (\<lparr>previousCount = 5, currentCount = 5, scrollAttempts = 2, noChangeCount = 2,
         attempt_log = [(1, 5), (2, 5), (3, 5)]\<rparr>, None)
   \<and> scroll_iterations (steady_page 5) scroll_init = 3"
proof -
  have o: "observed_count (steady_page 5) 0 = Some 5" "observed_count (steady_page 5) 1 = Some 5"
    "observed_count (steady_page 5) 2 = Some 5"
    by (simp_all add: observed_count_def steady_page_def count_in_page_def)
  have n: "nudge (steady_page 5) 0 = Inr ()" "nudge (steady_page 5) 1 = Inr ()"
    by (simp_all add: steady_page_def)
  from scroll_stops_after_5_5_5[OF o n] o n show ?thesis
    by simp
qed

text \<open>
  C3 as stated fails.  On the page that stays at 5 results the loop body runs three times, not
  two: after the checks 5, 5 the loop is still running and asks for a third count.  On the page
  that shows 5, 5 and then 6 it runs five times and leaves \<^verbatim>\<open>scrollAttempts\<close> at 4.
\<close>

theorem scroll_5_5_counterexample:
  "observed_count (steady_page 5) 0 = Some 5 \<and> observed_count (steady_page 5) 1 = Some 5
   \<and> attempt_log (fst (scroll_to_load (steady_page 5))) = [(1, 5), (2, 5), (3, 5)]
   \<and> scroll_iterations (steady_page 5) scroll_init = 3
   \<and> scroll_iterations (steady_page 5) scroll_init \<noteq> 2
   \<and> observed_count page_5_5_then_6 0 = Some 5 \<and> observed_count page_5_5_then_6 1 = Some 5
   \<and> attempt_log (fst (scroll_to_load page_5_5_then_6))
       = [(1, 5), (2, 5), (3, 6), (4, 6), (5, 6)]
   \<and> scroll_iterations page_5_5_then_6 scroll_init = 5
   \<and> scrollAttempts (fst (scroll_to_load page_5_5_then_6)) = 4"
  by (simp add: scroll_defs Let_def)

section \<open>Websites of the records that leave the scrape\<close>

lemma extractBusinessDetails_cases:
  "extractBusinessDetails v b = Inr b \<or>
   (\<exists>doc info. detail_eval v = Inr doc \<and> detail_script doc = Inr info
      \<and> extractBusinessDetails v b = Inr (merge_details b info))"
  by (auto simp: extractBusinessDetails_def detail_attempt_def split: sum.splits)











section \<open>Phone numbers of the detail page\<close>

lemma space_not_digit: "is_space c \<Longrightarrow> \<not> is_digit c"
  by (auto simp: is_space_def is_digit_def)

lemma filter_dropWhile_disjoint:
  "(\<And>x. Q x \<Longrightarrow> \<not> P x) \<Longrightarrow> filter P (dropWhile Q xs) = filter P xs"
  by (induction xs) auto

lemma digitsOnly_trim: "digitsOnly (trim s) = digitsOnly s"
proof -
  have "filter is_digit (dropWhile is_space (rev (dropWhile is_space s)))
        = filter is_digit (rev (dropWhile is_space s))"
    by (rule filter_dropWhile_disjoint) (rule space_not_digit)
  then have "filter is_digit (trim s) = filter is_digit (dropWhile is_space s)"
    by (simp add: trim_def flip: rev_filter)
  also have "\<dots> = filter is_digit s"
    by (rule filter_dropWhile_disjoint) (rule space_not_digit)
  finally show ?thesis by (simp add: digitsOnly_def)
qed

lemma first_some_map_SomeD:
  "first_some (map f xs) = Some y \<Longrightarrow> \<exists>x \<in> set xs. f x = Some y"
proof (induction xs)
  case Nil
  then show ?case by simp
next
  case (Cons a xs)
  then show ?case by (cases "f a") auto
qed

lemma contact_phone_valid: "contact_phone el = Some p \<Longrightarrow> valid_phone_length p"
  by (auto simp: contact_phone_def Let_def split: if_splits option.splits)

lemma tel_phone_valid: "tel_phone link = Some p \<Longrightarrow> valid_phone_length p"
  by (auto simp: tel_phone_def Let_def split: if_splits option.splits)

lemma pattern_phone_valid: "pattern_phone t pat = Some p \<Longrightarrow> valid_phone_length p"
  by (auto simp: pattern_phone_def valid_phone_length_def digitsOnly_trim find_Some_iff
      split: option.splits if_splits)

lemma later_strategies_valid:
  "phone_strategy2 m = Some p \<Longrightarrow> valid_phone_length p"
  "phone_strategy3 m = Some p \<Longrightarrow> valid_phone_length p"
  "phone_strategy4 m = Some p \<Longrightarrow> valid_phone_length p"
  by (auto simp: phone_strategy2_def phone_strategy3_def phone_strategy4_def Let_def
      dest!: first_some_map_SomeD dest: contact_phone_valid tel_phone_valid pattern_phone_valid)

text \<open>
  C1 (as amended).  A phone number that the detail page script takes from its second, third
  or fourth strategy (the Phone button of the first strategy gave nothing) has between 7 and
  15 digits.
\<close>

theorem phone_valid_after_button:
  assumes "\<not> truthy (phone_strategy1 doc)" and "extract_phone doc = Some p" and "p \<noteq> []"
  shows "7 \<le> length (digitsOnly p) \<and> length (digitsOnly p) \<le> 15"
proof -
  from assms have "\<exists>m. mainPanel doc = Some m \<and>
      (phone_strategy2 m = Some p \<or> phone_strategy3 m = Some p \<or> phone_strategy4 m = Some p)"
    by (auto simp: extract_phone_def Let_def unless_found_def truthy_def Option.bind_eq_Some_conv
        split: if_splits option.splits)
  then have "valid_phone_length p"
    by (auto dest: later_strategies_valid)
  then show ?thesis by (simp add: valid_phone_length_def)
qed

theorem phone_valid_after_button_witness:
  "\<not> truthy (phone_strategy1 tel_link_page)
   \<and> extract_phone tel_link_page = Some ''+92 300 1234567''
   \<and> ''+92 300 1234567'' \<noteq> []
   \<and> 7 \<le> length (digitsOnly ''+92 300 1234567'')
   \<and> length (digitsOnly ''+92 300 1234567'') \<le> 15"
proof -
  have a: "\<not> truthy (phone_strategy1 tel_link_page)"
    by (simp add: phone_strategy1_def input_defs truthy_def)
  have b: "extract_phone tel_link_page = Some ''+92 300 1234567''"
    by (simp add: script_defs input_defs js_defs)
  have c: "''+92 300 1234567'' \<noteq> []"
    by simp
  from phone_valid_after_button[OF a b c] a b c show ?thesis
    by simp
qed

text \<open>
  C1 as stated fails.  The summary extraction keeps the four-digit number of the card's phone
  label, and the scrape returns it; the first strategy of the detail page keeps the six-digit
  number of the Phone button, and the merge puts it into the returned record.
\<close>

theorem phone_length_counterexample:
  "map_option phone (extract_card 0 short_code_card) = Some (Some ''1122'')
   \<and> map_sum id (map phone)
        (fst (scrapeGoogleMaps one_card_scrape ''cafes'' (None :: unit sink option) ()))
       = Inr [Some ''1122'']
   \<and> length (digitsOnly ''1122'') = 4
   \<and> extract_phone short_number_page = Some ''111 222''
   \<and> map_sum id phone (extractBusinessDetails (visit_of short_number_page) cafe_blue)
       = Inr (Some ''111 222'')
   \<and> length (digitsOnly ''111 222'') = 6"
proof -
  have "map_option phone (extract_card 0 short_code_card) = Some (Some ''1122'')"
    by (simp add: card_defs input_defs js_defs)
  moreover have "extract_phone short_number_page = Some ''111 222''"
    by (simp add: script_defs input_defs js_defs)
  moreover have
    "map_sum id phone (extractBusinessDetails (visit_of short_number_page) cafe_blue)
       = Inr (Some ''111 222'')"
    by (simp add: enrich_defs script_defs input_defs js_defs)
  moreover have "length (digitsOnly ''1122'') = 4" "length (digitsOnly ''111 222'') = 6"
    by (simp_all add: js_defs)
  ultimately show ?thesis
    by (simp add: one_card_result)
qed

section \<open>Websites: a concrete scrape\<close>



section \<open>Properties of \<^verbatim>\<open>extractBusinessDetails\<close>\<close>

text \<open>
  C4.  \<^verbatim>\<open>extractBusinessDetails\<close> never throws: for every page behaviour and every
  summary it returns a record.  When \<^verbatim>\<open>page.goto(business.placeUrl)\<close> rejects, the record
  is the input summary itself, all fields as they were and without the keys of the enrichment.
\<close>

theorem enrich_never_raises:
  "(\<exists>r. extractBusinessDetails v b = Inr r)
   \<and> (\<forall>e. goto_place v = Inl e \<longrightarrow> extractBusinessDetails v b = Inr b)"
  by (auto simp: extractBusinessDetails_def detail_attempt_def navigate_to_place_def
      split: sum.splits)

theorem enrich_never_raises_witness:
  "goto_place timeout_visit = Inl (Error ''Navigation timeout of 15000 ms exceeded'')
   \<and> truthy (placeUrl cafe_blue)
   \<and> extractBusinessDetails timeout_visit cafe_blue = Inr cafe_blue"
  using enrich_never_raises[of timeout_visit cafe_blue]
  by (simp add: timeout_visit_def cafe_blue_def truthy_def)

text \<open>
  C7.  For a summary without \<^verbatim>\<open>placeUrl\<close> the function returns its input, whatever the
  page would do.
\<close>

theorem enrich_identity_without_placeUrl:
  "placeUrl b = None \<Longrightarrow> extractBusinessDetails v b = Inr b"
  by (simp add: extractBusinessDetails_def detail_attempt_def truthy_def)

theorem enrich_identity_without_placeUrl_witness:
  "placeUrl cafe_blue_unlinked = None
   \<and> extractBusinessDetails (visit_of website_page) cafe_blue_unlinked = Inr cafe_blue_unlinked"
proof -
  have "placeUrl cafe_blue_unlinked = None"
    by (simp add: cafe_blue_unlinked_def)
  from enrich_identity_without_placeUrl[OF this] this show ?thesis
    by simp
qed

text \<open>
  C10.  On every path the returned record has the \<^verbatim>\<open>name\<close>, \<^verbatim>\<open>rating\<close>,
  \<^verbatim>\<open>reviewCount\<close>, \<^verbatim>\<open>placeId\<close> and \<^verbatim>\<open>placeUrl\<close> of the input: the failure paths return
  the input, and the merge of the success path assigns only \<^verbatim>\<open>phone\<close>, \<^verbatim>\<open>website\<close>,
  \<^verbatim>\<open>address\<close>, \<^verbatim>\<open>hours\<close>, \<^verbatim>\<open>category\<close> and \<^verbatim>\<open>description\<close>.
\<close>

theorem enrich_frame:
  "\<exists>r. extractBusinessDetails v b = Inr r \<and> name r = name b \<and> rating r = rating b
        \<and> reviewCount r = reviewCount b \<and> placeId r = placeId b \<and> placeUrl r = placeUrl b"
  using extractBusinessDetails_cases[of v b]
  by (auto simp: merge_details_def Let_def)

section \<open>The callback in the detail loop\<close>

text \<open>
  C2, evaluated on the code.  With a callback that always throws, the error of its second
  call, made from the \<^verbatim>\<open>catch\<close> block, leaves the loop at the first record: the second
  record is never processed and the scrape rejects instead of returning a list.  With a
  callback that throws on its first call only, the loop goes on, and the first record is
  listed twice.
\<close>

theorem sink_exception_leaves_loop:
  "detail_loop (Some throwing_sink) ''cafes'' quiet_visits 0 [cafe_blue, tea_house] [] ()
     = (Inl (Error ''sink failed''), ())
   \<and> scrapeGoogleMaps one_card_scrape ''cafes'' (Some throwing_sink) ()
     = (Inl (Error ''sink failed''), ())
   \<and> detail_loop (Some flaky_sink) ''cafes'' quiet_visits 0 [cafe_blue, tea_house] [] 0
     = (Inr [cafe_blue, cafe_blue, tea_house], 3)"
proof -
  have "detail_loop (Some throwing_sink) ''cafes'' quiet_visits 0 [cafe_blue, tea_house] [] ()
     = (Inl (Error ''sink failed''), ())"
    by (simp add: loop_defs enrich_defs input_defs js_defs)
  moreover have "scrapeGoogleMaps one_card_scrape ''cafes'' (Some throwing_sink) ()
     = (Inl (Error ''sink failed''), ())"
    by (simp add: scrapeGoogleMaps_def scrape_session_def uniqueResults_def scroll_defs loop_defs
        card_defs enrich_defs script_defs input_defs js_defs)
  moreover have
    "detail_loop (Some flaky_sink) ''cafes'' quiet_visits 0 [cafe_blue, tea_house] [] 0
     = (Inr [cafe_blue, cafe_blue, tea_house], 3)"
    by (simp add: loop_defs enrich_defs input_defs js_defs)
  ultimately show ?thesis
    by simp
qed

section \<open>Duplicate removal\<close>

lemma findIndex_range:
  "findIndex p xs = -1 \<or> (0 \<le> findIndex p xs \<and> findIndex p xs < int (length xs))"
  by (induction xs) (auto simp: Let_def)

lemma findIndex_first:
  "findIndex p xs = int i \<longleftrightarrow> i < length xs \<and> p (xs ! i) \<and> (\<forall>j<i. \<not> p (xs ! j))"
proof (induction xs arbitrary: i)
  case Nil
  then show ?case by simp
next
  case (Cons x xs)
  show ?case
  proof (cases "p x")
    case True
    then show ?thesis by (cases i) auto
  next
    case False
    show ?thesis
    proof (cases i)
      case 0
      with False findIndex_range[of p xs] show ?thesis by (auto simp: Let_def)
    next
      case (Suc k)
      have "(findIndex p (x # xs) = int (Suc k)) = (findIndex p xs = int k)"
        using False findIndex_range[of p xs] by (auto simp: Let_def)
      also have "\<dots> = (k < length xs \<and> p (xs ! k) \<and> (\<forall>j<k. \<not> p (xs ! j)))"
        by (rule Cons.IH)
      also have "\<dots> = (Suc k < length (x # xs) \<and> p ((x # xs) ! Suc k)
                        \<and> (\<forall>j<Suc k. \<not> p ((x # xs) ! j)))"
        using False by (auto simp: less_Suc_eq_0_disj)
      finally show ?thesis using Suc by simp
    qed
  qed
qed

text \<open>The records that survive are those at the first index of their name.\<close>

lemma uniqueResults_first_indices:
  "uniqueResults rs =
     map (\<lambda>i. rs ! i) (filter (\<lambda>i. \<forall>j<i. name (rs ! j) \<noteq> name (rs ! i)) [0..<length rs])"
proof -
  let ?Q = "\<lambda>(index, business). int index = findIndex (\<lambda>b. name b = name business) rs"
  let ?f = "\<lambda>i. (i, rs ! i)"
  let ?first = "\<lambda>i. \<forall>j<i. name (rs ! j) \<noteq> name (rs ! i)"
  have e: "enumerate 0 rs = map ?f [0..<length rs]"
    by (rule nth_equalityI) (simp_all add: nth_enumerate_eq)
  have "filter (?Q \<circ> ?f) [0..<length rs] = filter ?first [0..<length rs]"
  proof (rule filter_cong[OF refl])
    fix x assume "x \<in> set [0..<length rs]"
    then have x: "x < length rs" by simp
    show "(?Q \<circ> ?f) x = ?first x"
      using findIndex_first[of "\<lambda>b. name b = name (rs ! x)" rs x] x
      by auto
  qed
  then have "filter ?Q (enumerate 0 rs) = map ?f (filter ?first [0..<length rs])"
    by (simp only: e filter_map)
  then show ?thesis
    by (simp add: uniqueResults_def comp_def)
qed

lemma filter_single:
  "distinct xs \<Longrightarrow> x \<in> set xs \<Longrightarrow> (\<And>y. y \<in> set xs \<Longrightarrow> P y \<longleftrightarrow> y = x) \<Longrightarrow> filter P xs = [x]"
proof (induction xs)
  case Nil
  then show ?case by simp
next
  case (Cons a xs)
  show ?case
  proof (cases "a = x")
    case True
    with Cons.prems have "\<And>y. y \<in> set xs \<Longrightarrow> \<not> P y" by auto
    then have "filter P xs = []" by (simp add: filter_empty_conv)
    with True Cons.prems(3)[of a] show ?thesis by simp
  next
    case False
    with Cons have "filter P xs = [x]" by auto
    with False Cons.prems(3)[of a] show ?thesis by simp
  qed
qed

lemma find_first_index:
  assumes "i < length rs" "P (rs ! i)" "\<forall>j<i. \<not> P (rs ! j)"
  shows "find P rs = Some (rs ! i)"
  using assms
proof (induction rs arbitrary: i)
  case Nil
  then show ?case by simp
next
  case (Cons a rs)
  show ?case
  proof (cases i)
    case 0
    with Cons.prems show ?thesis by simp
  next
    case (Suc k)
    with Cons.prems have "\<not> P a" by auto
    moreover have "find P rs = Some (rs ! k)"
      using Cons.prems Suc by (intro Cons.IH) auto
    ultimately show ?thesis using Suc by simp
  qed
qed

text \<open>
  C8.  For every record \<open>b\<close> of the extracted list, the list that goes into the detail visits
  holds exactly one record whose name is exactly (character for character) the name of \<open>b\<close>:
  the first such record of the extracted list.
\<close>

theorem uniqueResults_one_per_name:
  assumes "b \<in> set results"
  shows "\<exists>r. find (\<lambda>x. name x = name b) results = Some r
             \<and> filter (\<lambda>x. name x = name b) (uniqueResults results) = [r]"
proof -
  let ?P = "\<lambda>i. i < length results \<and> name (results ! i) = name b"
  let ?first = "\<lambda>i. \<forall>j<i. name (results ! j) \<noteq> name (results ! i)"
  from assms obtain k where k: "?P k" by (auto simp: in_set_conv_nth)
  define i0 where "i0 = (LEAST i. ?P i)"
  have i0: "?P i0" unfolding i0_def by (rule LeastI[of ?P, OF k])
  have least: "\<And>j. ?P j \<Longrightarrow> i0 \<le> j" unfolding i0_def by (rule Least_le)
  have nolower: "\<forall>j<i0. name (results ! j) \<noteq> name b"
  proof (intro allI impI)
    fix j assume "j < i0"
    with i0 least[of j] show "name (results ! j) \<noteq> name b" by fastforce
  qed
  have f: "find (\<lambda>x. name x = name b) results = Some (results ! i0)"
    using i0 nolower by (intro find_first_index) auto
  have "filter (\<lambda>i. name (results ! i) = name b \<and> ?first i) [0..<length results] = [i0]"
  proof (rule filter_single)
    show "distinct [0..<length results]" by simp
    show "i0 \<in> set [0..<length results]" using i0 by simp
    fix y assume y: "y \<in> set [0..<length results]"
    show "(name (results ! y) = name b \<and> ?first y) = (y = i0)"
    proof
      assume a: "name (results ! y) = name b \<and> ?first y"
      with y have "i0 \<le> y" by (intro least) auto
      moreover have "\<not> i0 < y" using a i0 by auto
      ultimately show "y = i0" by simp
    next
      assume "y = i0"
      with i0 nolower show "name (results ! y) = name b \<and> ?first y" by auto
    qed
  qed
  then have "filter (\<lambda>x. name x = name b) (uniqueResults results) = [results ! i0]"
    by (simp add: uniqueResults_first_indices filter_map comp_def conj_commute)
  with f show ?thesis by blast
qed

theorem uniqueResults_one_per_name_witness:
  "cafe_blue_unlinked \<in> set listed
   \<and> name cafe_blue_unlinked = name cafe_blue
   \<and> uniqueResults listed = [cafe_blue, tea_house, tea_house\<lparr>name := ''tea house''\<rparr>]
   \<and> filter (\<lambda>x. name x = name cafe_blue_unlinked) (uniqueResults listed) = [cafe_blue]"
proof -
  have m: "cafe_blue_unlinked \<in> set listed"
    by (simp add: listed_def)
  have f: "find (\<lambda>x. name x = name cafe_blue_unlinked) listed = Some cafe_blue"
    by (simp add: input_defs)
  have u: "uniqueResults listed = [cafe_blue, tea_house, tea_house\<lparr>name := ''tea house''\<rparr>]"
    by (simp add: uniqueResults_def input_defs)
  from uniqueResults_one_per_name[OF m] f
  have "filter (\<lambda>x. name x = name cafe_blue_unlinked) (uniqueResults listed) = [cafe_blue]"
    by auto
  with m u show ?thesis
    by (simp add: input_defs)
qed

section \<open>Fingerprint of a session\<close>

lemma pick_in_range:
  assumes "0 \<le> r" "r < 1" "xs \<noteq> []"
  shows "\<exists>x \<in> set xs. pick xs r = Some x"
proof -
  have "r * real (length xs) < real (length xs)"
    using assms by simp
  then have "\<lfloor>r * real (length xs)\<rfloor> < int (length xs)"
    by (simp add: floor_less_iff)
  moreover have "0 \<le> \<lfloor>r * real (length xs)\<rfloor>"
    using assms by simp
  ultimately have "0 \<le> \<lfloor>r * real (length xs)\<rfloor>"
    and "nat \<lfloor>r * real (length xs)\<rfloor> < length xs"
    by linarith+
  then show ?thesis
    by (simp add: pick_def Let_def)
qed

text \<open>
  C6 (as amended).  The user agent and the viewport (and the platform derived from the user
  agent) are those chosen once by \<^verbatim>\<open>setupFingerprintAvoidance\<close>, the same in every
  document that the page loads during the session.  The timezone of a document is drawn in
  that document: it is the zone picked by the document's own random value, one of the five
  fixed zones.
\<close>

theorem fingerprint_fixed_parts:
  "nav_userAgent (document_fingerprint s i) = fst (setupFingerprintAvoidance s)
   \<and> screen_size (document_fingerprint s i) = snd (setupFingerprintAvoidance s)
   \<and> nav_userAgent (document_fingerprint s i) = nav_userAgent (document_fingerprint s j)
   \<and> nav_platform (document_fingerprint s i) = nav_platform (document_fingerprint s j)
   \<and> screen_size (document_fingerprint s i) = screen_size (document_fingerprint s j)
   \<and> randomTimezone (document_fingerprint s i) = pick timezones (document_draw s i)
   \<and> (0 \<le> document_draw s i \<and> document_draw s i < 1
        \<longrightarrow> (\<exists>z \<in> set timezones. randomTimezone (document_fingerprint s i) = Some z))"
proof -
  have "0 \<le> document_draw s i \<and> document_draw s i < 1
        \<longrightarrow> (\<exists>z \<in> set timezones. pick timezones (document_draw s i) = Some z)"
    using pick_in_range[of "document_draw s i" timezones]
    by (auto simp: timezones_def)
  then show ?thesis
    by (simp add: document_fingerprint_def init_script_def split: prod.splits)
qed

theorem fingerprint_fixed_parts_witness:
  "0 \<le> document_draw two_draws 1 \<and> document_draw two_draws 1 < 1
   \<and> nav_userAgent (document_fingerprint two_draws 0)
       = nav_userAgent (document_fingerprint two_draws 1)
   \<and> screen_size (document_fingerprint two_draws 0) = Some \<lparr>width = 1920, height = 1080\<rparr>
   \<and> screen_size (document_fingerprint two_draws 1) = Some \<lparr>width = 1920, height = 1080\<rparr>
   \<and> randomTimezone (document_fingerprint two_draws 1) = Some ''America/Chicago''
   \<and> ''America/Chicago'' \<in> set timezones"
proof -
  have d: "0 \<le> document_draw two_draws 1 \<and> document_draw two_draws 1 < 1"
    by (simp add: two_draws_def)
  have v: "snd (setupFingerprintAvoidance two_draws) = Some \<lparr>width = 1920, height = 1080\<rparr>"
    by (simp add: setupFingerprintAvoidance_def getRandomViewport_def pick_def viewports_def
        two_draws_def)
  have p: "pick timezones (document_draw two_draws 1) = Some ''America/Chicago''"
    by (simp add: pick_def timezones_def two_draws_def)
  from fingerprint_fixed_parts[of two_draws 0 1] fingerprint_fixed_parts[of two_draws 1 0] d v p
  show ?thesis
    by (simp add: timezones_def)
qed

text \<open>
  C6 as stated fails: in the session whose first document draws 0 and whose second document
  draws 1/2, the first page load reports New York (offset 300) and the second Chicago
  (offset 360).
\<close>

theorem timezone_changes_between_loads:
  "randomTimezone (document_fingerprint two_draws 0) = Some ''America/New_York''
   \<and> randomTimezone (document_fingerprint two_draws 1) = Some ''America/Chicago''
   \<and> randomTimezone (document_fingerprint two_draws 0)
       \<noteq> randomTimezone (document_fingerprint two_draws 1)
   \<and> timezoneOffset (document_fingerprint two_draws 0) = 300
   \<and> timezoneOffset (document_fingerprint two_draws 1) = 360"
  by (simp add: document_fingerprint_def setupFingerprintAvoidance_def init_script_def
      two_draws_def pick_def timezones_def offsets_def Let_def)

end
